theory Spec2Isabelle
  imports Main "HOL-Library.AList"
begin

section \<open>MDX hydration in \<open>packages/ai-jsx/src/react/jit-ui/mdx.tsx\<close>\<close>

text \<open>
  The file defines the async generator \<open>MdxChatCompletion\<close> and, inside it, the helpers
  \<open>hydrateMDX\<close>, \<open>convertAstToComponent\<close> and \<open>convertAstToComponentRec\<close>.
  The embedding keeps these names. Three collaborators are not part of the file and are
  parameters of the model:
  \<^item> \<open>compile\<close> of the package \<open>@mdx-js/mdx\<close>, the parser:
  \<open>compile mdx\<close> is \<open>Inl msg\<close> when the promise rejects, and \<open>Inr a\<close> when
  it resolves, \<open>a\<close> being what the rehype plugin stored in the captured variable \<open>ast\<close>
  (\<open>None\<close> when the plugin was never run and the variable is still \<open>undefined\<close>);
  \<^item> \<open>components\<close>, the record that \<open>collectComponents usageExamples\<close> returns, a map
  from component names to component handles of an arbitrary type \<open>'c\<close>;
  \<^item> \<open>render completion\<close>, whose frames and final value are the parameters
  \<open>frames\<close> and \<open>final\<close> of \<open>MdxChatCompletion\<close>.

  The logger is a sink: every function returns the list of entries it logged, in order,
  next to its result, and a caller appends the lists in the order of the calls.
  An exception is an \<open>Inl\<close> result; entries logged before the throw are kept.
\<close>

subsection \<open>The AST (\<open>interface Node\<close>)\<close>

text \<open>
  At run time the \<open>value\<close> of an attribute is \<open>undefined\<close>, \<open>null\<close> (a bare
  attribute), a string, or an object with a \<open>type\<close> and a \<open>value\<close> field
  (an attribute value expression such as \<open>b={null}\<close>).
\<close>

datatype attr_value =
    AttrUndefined
  | AttrNull
  | AttrString string
  | AttrObject string string

record attr =
  attr_type :: string
  attr_name :: string
  attr_value :: attr_value

text \<open>An optional field of \<open>Node\<close> that is absent is \<open>None\<close>.\<close>

datatype node = Node
  (node_type: string)
  (node_tagName: "string option")
  (node_children: "node list option")
  (node_name: "string option")
  (node_value: "string option")
  (node_attributes: "attr list option")

subsection \<open>The output (\<open>React.ReactNode\<close>)\<close>

datatype prop_value =
    PropTrue
  | PropUndefined
  | PropString string
  | PropObject string string

text \<open>
  \<open>RIntrinsic tag cs\<close> is the JSX element \<open><tag>cs</tag>\<close> with the child expressions
  \<open>cs\<close>; \<open>RComponent C props cs\<close> is \<open><C {...props}>cs</C>\<close>. The object
  \<open>props\<close> is an association list in insertion order.
\<close>

datatype 'c react_node =
    RNull
  | RUndefined
  | RString string
  | RArray "'c react_node list"
  | RIntrinsic string "'c react_node list"
  | RComponent 'c "(string \<times> prop_value) list" "'c react_node list"

text \<open>What the generator hands out: the unhydrated completion, or \<open><AI.React>n</AI.React>\<close>.\<close>

datatype 'c ai_node =
    Completion string
  | AIReact "'c react_node"

datatype error =
    CompileError string
  | TypeError
  | UnimplementedProp attr_value
  | UnhandledType node

datatype 'c log_entry =
    Warn_hydrating "'c react_node" "node option"
  | Warn_ignoring string
  | Trace_yielding string
  | Trace_not_yielding string

subsection \<open>\<open>convertAstToComponentRec\<close>\<close>

text \<open>\<open>_.compact\<close> removes the falsy entries of an array.\<close>

fun falsy :: "'c react_node \<Rightarrow> bool" where
  "falsy RNull = True"
| "falsy RUndefined = True"
| "falsy (RString s) = (s = [])"
| "falsy (RArray xs) = False"
| "falsy (RIntrinsic t cs) = False"
| "falsy (RComponent C ps cs) = False"

definition compact :: "'c react_node list \<Rightarrow> 'c react_node list" where
  "compact xs = filter (\<lambda>x. \<not> falsy x) xs"

text \<open>\<open>attr.value?.type\<close> as a condition: the value is an object whose \<open>type\<close> is truthy.\<close>

fun value_has_type :: "attr_value \<Rightarrow> bool" where
  "value_has_type (AttrObject t v) = (t \<noteq> [])"
| "value_has_type AttrUndefined = False"
| "value_has_type AttrNull = False"
| "value_has_type (AttrString s) = False"

text \<open>\<open>attr.value === null ? true : attr.value\<close>\<close>

fun prop_of :: "attr_value \<Rightarrow> prop_value" where
  "prop_of AttrNull = PropTrue"
| "prop_of AttrUndefined = PropUndefined"
| "prop_of (AttrString s) = PropString s"
| "prop_of (AttrObject t v) = PropObject t v"

text \<open>
  \<open>attributes.reduce((acc, attr) => ..., {})\<close>: the callback throws on an attribute whose
  value has a type and otherwise assigns \<open>acc[attr.name]\<close>. An assignment to a key that is
  already present overwrites its value in place.
\<close>

fun reduce_props :: "attr list \<Rightarrow> (string \<times> prop_value) list \<Rightarrow> error + (string \<times> prop_value) list" where
  "reduce_props [] acc = Inr acc"
| "reduce_props (a # as) acc =
     (if value_has_type (attr_value a) then Inl (UnimplementedProp (attr_value a))
      else reduce_props as (AList.update (attr_name a) (prop_of (attr_value a)) acc))"

text \<open>The destructuring defaults \<open>children = []\<close> and \<open>attributes = []\<close>.\<close>

definition children_of :: "node \<Rightarrow> node list" where
  "children_of ast = (case node_children ast of None \<Rightarrow> [] | Some cs \<Rightarrow> cs)"

definition attributes_of :: "node \<Rightarrow> attr list" where
  "attributes_of ast = (case node_attributes ast of None \<Rightarrow> [] | Some as \<Rightarrow> as)"

text \<open>
  \<open>const componentName = name!\<close> used as a property key: an absent name reads the key
  \<open>undefined\<close>.
\<close>

definition componentName :: "node \<Rightarrow> string" where
  "componentName ast = (case node_name ast of None \<Rightarrow> ''undefined'' | Some n \<Rightarrow> n)"

text \<open>The child of \<open><span>{[ast.value]}</span>\<close>.\<close>

definition value_child :: "node \<Rightarrow> 'c react_node" where
  "value_child ast = (case node_value ast of None \<Rightarrow> RUndefined | Some v \<Rightarrow> RString v)"

text \<open>
  \<open>convertAstToComponentRec\<close> with \<open>children.map(convertAstToComponentRec)\<close> as the
  second function: the map walks the children from left to right and stops at the first
  child that throws.
\<close>

function convertAstToComponentRec ::
    "(string \<rightharpoonup> 'c) \<Rightarrow> node \<Rightarrow> 'c log_entry list \<times> (error + 'c react_node)"
  and map_convertAstToComponentRec ::
    "(string \<rightharpoonup> 'c) \<Rightarrow> node list \<Rightarrow> 'c log_entry list \<times> (error + 'c react_node list)"
where
  "convertAstToComponentRec components ast =
     (if node_type ast = ''root'' then
        (case map_convertAstToComponentRec components (children_of ast) of
           (l, Inl e) \<Rightarrow> (l, Inl e)
         | (l, Inr rs) \<Rightarrow> (l, Inr (RIntrinsic ''div'' [RArray (compact rs)])))
      else if node_type ast = ''element'' then
        (case map_convertAstToComponentRec components (children_of ast) of
           (l, Inl e) \<Rightarrow> (l, Inl e)
         | (l, Inr rs) \<Rightarrow> (l, Inr (RIntrinsic ''div'' [RString ''element '', RArray (compact rs)])))
      else if node_type ast = ''mdxJsxTextElement'' \<or> node_type ast = ''mdxJsxFlowElement'' then
        (case reduce_props (attributes_of ast) [] of
           Inl e \<Rightarrow> ([], Inl e)
         | Inr props \<Rightarrow>
            (case components (componentName ast) of
               None \<Rightarrow> ([Warn_ignoring (componentName ast)], Inr RNull)
             | Some Component \<Rightarrow>
                (case map_convertAstToComponentRec components (children_of ast) of
                   (l, Inl e) \<Rightarrow> (l, Inl e)
                 | (l, Inr rs) \<Rightarrow> (l, Inr (RComponent Component props [RArray (compact rs)])))))
      else if node_type ast = ''text'' then
        (if node_value ast = Some [CHR 0x0A] then ([], Inr (RIntrinsic ''br'' []))
         else ([], Inr (RIntrinsic ''span'' [RArray [value_child ast]])))
      else if node_type ast = ''mdxjsEsm'' then ([], Inr RNull)
      else ([], Inl (UnhandledType ast)))"
| "map_convertAstToComponentRec components [] = ([], Inr [])"
| "map_convertAstToComponentRec components (c # cs) =
     (case convertAstToComponentRec components c of
        (l, Inl e) \<Rightarrow> (l, Inl e)
      | (l, Inr r) \<Rightarrow>
         (case map_convertAstToComponentRec components cs of
            (l', Inl e) \<Rightarrow> (l @ l', Inl e)
          | (l', Inr rs) \<Rightarrow> (l @ l', Inr (r # rs))))"
  by pat_completeness auto

text \<open>The children of a node are smaller than the node: the recursion ends.\<close>

termination
proof -
  have smaller: "Suc (2 * size_list size (children_of ast)) < 2 * size ast" for ast
    by (cases ast) (simp add: children_of_def split: option.split)
  show ?thesis
    by (relation "measure (\<lambda>x. case x of Inl (cs, ast) \<Rightarrow> 2 * size ast
                                     | Inr (cs, asts) \<Rightarrow> 2 * size_list size asts + 1)")
       (auto simp: smaller)
qed

declare convertAstToComponentRec.simps(1) [simp del]

subsection \<open>\<open>convertAstToComponent\<close> and \<open>hydrateMDX\<close>\<close>

text \<open>
  \<open>convertAstToComponent(ast!, components)\<close>: destructuring an \<open>ast\<close> that is still
  \<open>undefined\<close> throws a \<open>TypeError\<close>.
\<close>

definition convertAstToComponent ::
    "node option \<Rightarrow> (string \<rightharpoonup> 'c) \<Rightarrow> 'c log_entry list \<times> (error + 'c react_node)" where
  "convertAstToComponent ast components =
     (case ast of
        None \<Rightarrow> ([], Inl TypeError)
      | Some a \<Rightarrow> convertAstToComponentRec components a)"

text \<open>
  \<open>hydrateMDX\<close> awaits \<open>compile\<close>, converts the AST once for the log entry
  \<open>Hydrating MDX\<close> and a second time for the element it returns.
\<close>

definition hydrateMDX ::
    "(string \<Rightarrow> string + node option) \<Rightarrow> string \<Rightarrow> (string \<rightharpoonup> 'c)
      \<Rightarrow> 'c log_entry list \<times> (error + 'c ai_node)" where
  "hydrateMDX compile mdx components =
     (case compile mdx of
        Inl msg \<Rightarrow> ([], Inl (CompileError msg))
      | Inr ast \<Rightarrow>
         (case convertAstToComponent ast components of
            (l, Inl e) \<Rightarrow> (l, Inl e)
          | (l, Inr hydrated) \<Rightarrow>
             (case convertAstToComponent ast components of
                (l', Inl e) \<Rightarrow> (l @ [Warn_hydrating hydrated ast] @ l', Inl e)
              | (l', Inr r) \<Rightarrow> (l @ [Warn_hydrating hydrated ast] @ l', Inr (AIReact r)))))"

subsection \<open>\<open>MdxChatCompletion\<close>\<close>

text \<open>The constant \<open>completion\<close>: the fragment around the template literal of the source.\<close>

definition completion :: string where
  "completion =
     ''pre text'' @ [CHR 0x0A] @
     ''<Card>'' @ [CHR 0x0A] @
     ''  * **Foo**: bar'' @ [CHR 0x0A] @
     ''  <Badge color='' @ [CHR 0x27] @ ''red'' @ [CHR 0x27] @ ''>Content</Badge>'' @ [CHR 0x0A] @
     ''  <Toggle title='' @ [CHR 0x27] @ ''my title'' @ [CHR 0x27] @
       '' subtitle='' @ [CHR 0x27] @ ''my subtitle'' @ [CHR 0x27] @ '' />'' @ [CHR 0x0A] @
     ''</Card>'' @ [CHR 0x0A] @
     ''post text''"

text \<open>
  The \<open>for await\<close> loop over the frames: \<open>try { yield hydrateMDX(frame, components);
  logger.trace(...) } catch { logger.trace(...) }\<close>. A frame whose hydration throws
  yields nothing. The result is the log and the values yielded, in order.
\<close>

fun frame_loop ::
    "(string \<Rightarrow> string + node option) \<Rightarrow> (string \<rightharpoonup> 'c) \<Rightarrow> string list
      \<Rightarrow> 'c log_entry list \<times> 'c ai_node list" where
  "frame_loop compile components [] = ([], [])"
| "frame_loop compile components (frame # frames) =
     (case hydrateMDX compile frame components of
        (l, Inr v) \<Rightarrow>
          (case frame_loop compile components frames of
             (l', vs) \<Rightarrow> (l @ [Trace_yielding frame] @ l', v # vs))
      | (l, Inl e) \<Rightarrow>
          (case frame_loop compile components frames of
             (l', vs) \<Rightarrow> (l @ [Trace_not_yielding frame] @ l', vs)))"

text \<open>
  A run of the generator, for a consumer that pulls it to its end: the values it yields,
  the value it returns or the error it throws, and the log.
\<close>

record 'c run =
  yielded :: "'c ai_node list"
  returned :: "error + 'c ai_node"
  logged :: "'c log_entry list"

definition MdxChatCompletion ::
    "(string \<Rightarrow> string + node option) \<Rightarrow> (string \<rightharpoonup> 'c) \<Rightarrow> bool \<Rightarrow> string list \<Rightarrow> string
      \<Rightarrow> 'c run" where
  "MdxChatCompletion compile components hydrate frames final =
     (if \<not> hydrate then \<lparr>yielded = [], returned = Inr (Completion completion), logged = []\<rparr>
      else
        (case frame_loop compile components frames of
           (l, vs) \<Rightarrow>
             (case hydrateMDX compile final components of
                (l', r) \<Rightarrow> \<lparr>yielded = vs, returned = r, logged = l @ l'\<rparr>)))"

subsection \<open>Example inputs\<close>

text \<open>
  Nodes of the shapes the parser builds, for the concrete runs below. A JSX element has a
  name, attributes and children; an expression in braces is a node of the type
  \<open>mdxFlowExpression\<close>, which the switch of the walker has no case for.
\<close>

definition text_node :: "string \<Rightarrow> node" where
  "text_node v = Node ''text'' None None None (Some v) None"

definition element_node :: "string \<Rightarrow> node list \<Rightarrow> node" where
  "element_node tag cs = Node ''element'' (Some tag) (Some cs) None None None"

definition root_node :: "node list \<Rightarrow> node" where
  "root_node cs = Node ''root'' None (Some cs) None None None"

definition jsx_attr :: "string \<Rightarrow> attr_value \<Rightarrow> attr" where
  "jsx_attr n v = \<lparr>attr_type = ''mdxJsxAttribute'', attr_name = n, attr_value = v\<rparr>"

definition jsx_node :: "string \<Rightarrow> attr list \<Rightarrow> node list \<Rightarrow> node" where
  "jsx_node n as cs = Node ''mdxJsxFlowElement'' None (Some cs) (Some n) None (Some as)"

definition esm_node :: "string \<Rightarrow> node" where
  "esm_node v = Node ''mdxjsEsm'' None None None (Some v) None"

definition expression_node :: "string \<Rightarrow> node" where
  "expression_node v = Node ''mdxFlowExpression'' None None None (Some v) None"

definition expression_value :: "string \<Rightarrow> attr_value" where
  "expression_value v = AttrObject ''mdxJsxAttributeValueExpression'' v"

text \<open>A registry with the two components \<open>Badge\<close> and \<open>Card\<close>, their handles numbered.\<close>

definition example_components :: "string \<rightharpoonup> nat" where
  "example_components = [''Badge'' \<mapsto> 0, ''Card'' \<mapsto> 1]"

text \<open>
  A stand-in for the parser on five documents: it rejects every other string, as the
  parser rejects a document that stops inside a tag.
\<close>

definition example_compile :: "string \<Rightarrow> string + node option" where
  "example_compile mdx =
     (if mdx = ''<Badge color=\"red\">Hi</Badge>'' then
        Inr (Some (root_node [jsx_node ''Badge'' [jsx_attr ''color'' (AttrString ''red'')] [text_node ''Hi'']]))
      else if mdx = ''<Badge color={c}>Hi</Badge>'' then
        Inr (Some (root_node [jsx_node ''Badge'' [jsx_attr ''color'' (expression_value ''c'')] [text_node ''Hi'']]))
      else if mdx = ''<Unknown foo=\"1\"/>'' then
        Inr (Some (root_node [jsx_node ''Unknown'' [jsx_attr ''foo'' (AttrString ''1'')] []]))
      else if mdx = ''{1}'' then
        Inr (Some (root_node [expression_node ''1'']))
      else if mdx = ''Hi'' then
        Inr (Some (root_node [element_node ''p'' [text_node ''Hi'']]))
      else Inl ''Unexpected end of file'')"

section \<open>Properties\<close>

subsection \<open>The map over the children\<close>

lemma map_convert_append:
  "map_convertAstToComponentRec components (xs @ ys) =
     (case map_convertAstToComponentRec components xs of
        (l, Inl e) \<Rightarrow> (l, Inl e)
      | (l, Inr rs) \<Rightarrow>
         (case map_convertAstToComponentRec components ys of
            (l', Inl e) \<Rightarrow> (l @ l', Inl e)
          | (l', Inr rs') \<Rightarrow> (l @ l', Inr (rs @ rs'))))"
  by (induction xs) (auto split: prod.splits sum.splits)

lemma map_convert_all_ok:
  "list_all (\<lambda>c. \<not> isl (snd (convertAstToComponentRec components c))) cs \<Longrightarrow>
   map_convertAstToComponentRec components cs =
     (concat (map (\<lambda>c. fst (convertAstToComponentRec components c)) cs),
      Inr (map (\<lambda>c. projr (snd (convertAstToComponentRec components c))) cs))"
  by (induction cs) (auto split: prod.splits sum.splits)

lemma map_convert_first_failure:
  assumes "list_all (\<lambda>c. \<not> isl (snd (convertAstToComponentRec components c))) pre"
    and "snd (convertAstToComponentRec components c) = Inl e"
  shows "snd (map_convertAstToComponentRec components (pre @ c # post)) = Inl e"
  using assms
  by (auto simp: map_convert_append map_convert_all_ok split: prod.splits sum.splits)


text \<open>The walker returns \<open>null\<close> or an element, so \<open>_.compact\<close> removes exactly the \<open>null\<close>s.\<close>

lemma walked_falsy:
  "convertAstToComponentRec components ast = (l, Inr r) \<Longrightarrow> falsy r = (r = RNull)"
  by (auto simp: convertAstToComponentRec.simps(1)
           split: if_splits prod.splits sum.splits option.splits)

lemma walked_in_map:
  "map_convertAstToComponentRec components cs = (l, Inr rs) \<Longrightarrow> r \<in> set rs \<Longrightarrow>
   falsy r = (r = RNull)"
  by (induction cs arbitrary: l rs) (auto split: prod.splits sum.splits dest: walked_falsy)

lemma compact_walked:
  "map_convertAstToComponentRec components cs = (l, Inr rs) \<Longrightarrow>
   compact rs = filter (\<lambda>r. r \<noteq> RNull) rs"
  unfolding compact_def by (rule filter_cong) (auto dest: walked_in_map)

lemma root_walk:
  "convertAstToComponentRec components (Node ''root'' tg (Some cs) nm v at) =
     (case map_convertAstToComponentRec components cs of
        (l, Inl e) \<Rightarrow> (l, Inl e)
      | (l, Inr rs) \<Rightarrow> (l, Inr (RIntrinsic ''div'' [RArray (compact rs)])))"
  by (simp add: convertAstToComponentRec.simps(1) children_of_def)

subsection \<open>The props of a component\<close>





subsection \<open>Single nodes\<close>


lemma unhandled_walk:
  assumes "node_type ast \<notin> {''root'', ''element'', ''mdxJsxTextElement'', ''mdxJsxFlowElement'',
                              ''text'', ''mdxjsEsm''}"
  shows "convertAstToComponentRec components ast = ([], Inl (UnhandledType ast))"
  using assms by (simp add: convertAstToComponentRec.simps(1))

subsection \<open>Hydration and the frame loop\<close>

lemma hydrateMDX_result:
  "snd (hydrateMDX compile mdx components) =
     (case compile mdx of
        Inl msg \<Rightarrow> Inl (CompileError msg)
      | Inr None \<Rightarrow> Inl TypeError
      | Inr (Some ast) \<Rightarrow>
         (case snd (convertAstToComponentRec components ast) of
            Inl e \<Rightarrow> Inl e
          | Inr r \<Rightarrow> Inr (AIReact r)))"
  by (simp add: hydrateMDX_def convertAstToComponent_def split: sum.splits option.splits prod.splits)

lemma frame_loop_append:
  "frame_loop compile components (xs @ ys) =
     (fst (frame_loop compile components xs) @ fst (frame_loop compile components ys),
      snd (frame_loop compile components xs) @ snd (frame_loop compile components ys))"
  by (induction xs) (auto split: prod.splits sum.splits)

lemma frame_loop_failed:
  "snd (hydrateMDX compile frame components) = Inl e \<Longrightarrow>
   snd (frame_loop compile components (frame # frames)) = snd (frame_loop compile components frames)"
  by (auto split: prod.splits sum.splits)

lemma frame_loop_all_failed:
  "list_all (\<lambda>f. isl (snd (hydrateMDX compile f components))) frames \<Longrightarrow>
   snd (frame_loop compile components frames) = []"
  by (induction frames) (auto split: prod.splits sum.splits)

lemma yielded_hydrate:
  "yielded (MdxChatCompletion compile components True frames final) =
     snd (frame_loop compile components frames)"
  by (simp add: MdxChatCompletion_def split: prod.splits)

lemma returned_hydrate:
  "returned (MdxChatCompletion compile components True frames final) =
     snd (hydrateMDX compile final components)"
  by (simp add: MdxChatCompletion_def split: prod.splits)

text \<open>The example documents, hydrated.\<close>

lemma hydrate_Hi:
  "snd (hydrateMDX example_compile ''Hi'' example_components) =
     Inr (AIReact (RIntrinsic ''div''
       [RArray [RIntrinsic ''div''
          [RString ''element '', RArray [RIntrinsic ''span'' [RArray [RString ''Hi'']]]]]]))"
  by (simp add: hydrateMDX_result example_compile_def root_node_def element_node_def
        text_node_def children_of_def convertAstToComponentRec.simps(1) value_child_def
        compact_def)

lemma hydrate_unterminated:
  "snd (hydrateMDX example_compile ''<Ba'' example_components) =
     Inl (CompileError ''Unexpected end of file'')"
  by (simp add: hydrateMDX_result example_compile_def)

lemma hydrate_expression_attribute:
  "snd (hydrateMDX example_compile ''<Badge color={c}>Hi</Badge>'' example_components) =
     Inl (UnimplementedProp (AttrObject ''mdxJsxAttributeValueExpression'' ''c''))"
  by (simp add: hydrateMDX_result example_compile_def root_node_def jsx_node_def jsx_attr_def
        expression_value_def children_of_def attributes_of_def convertAstToComponentRec.simps(1))

lemma hydrate_expression:
  "snd (hydrateMDX example_compile ''{1}'' example_components) =
     Inl (UnhandledType (expression_node ''1''))"
  by (simp add: hydrateMDX_result example_compile_def root_node_def expression_node_def
        children_of_def convertAstToComponentRec.simps(1))

section \<open>The claims\<close>

subsection \<open>The generator\<close>

text \<open>
  C1. With \<open>hydrate\<close> set, the value the generator returns is the hydration of the final
  document, whatever the frames were: a rejection by the parser is thrown as it is, an
  error of the walk on the final AST is thrown as it is, and a successful walk is returned
  inside \<open><AI.React>\<close>. This holds also when every frame failed to hydrate, in which
  case nothing was yielded before.
\<close>

theorem terminal_value:
  "(\<forall>msg. compile final = Inl msg \<longrightarrow>
      returned (MdxChatCompletion compile components True frames final) = Inl (CompileError msg))
   \<and> (compile final = Inr None \<longrightarrow>
      returned (MdxChatCompletion compile components True frames final) = Inl TypeError)
   \<and> (\<forall>ast e. compile final = Inr (Some ast) \<and> snd (convertAstToComponentRec components ast) = Inl e \<longrightarrow>
      returned (MdxChatCompletion compile components True frames final) = Inl e)
   \<and> (\<forall>ast r. compile final = Inr (Some ast) \<and> snd (convertAstToComponentRec components ast) = Inr r \<longrightarrow>
      returned (MdxChatCompletion compile components True frames final) = Inr (AIReact r))
   \<and> (list_all (\<lambda>f. isl (snd (hydrateMDX compile f components))) frames \<longrightarrow>
      yielded (MdxChatCompletion compile components True frames final) = [])"
  by (simp add: returned_hydrate yielded_hydrate hydrateMDX_result frame_loop_all_failed)

text \<open>
  Two frames that both fail and a final document that hydrates; then a final document the
  parser rejects, and one whose walk throws.
\<close>

theorem terminal_value_witness:
  "yielded (MdxChatCompletion example_compile example_components True [''<Ba'', ''{1}''] ''Hi'') = []
   \<and> returned (MdxChatCompletion example_compile example_components True [''<Ba'', ''{1}''] ''Hi'') =
       Inr (AIReact (RIntrinsic ''div''
         [RArray [RIntrinsic ''div''
            [RString ''element '', RArray [RIntrinsic ''span'' [RArray [RString ''Hi'']]]]]]))
   \<and> returned (MdxChatCompletion example_compile example_components True [''Hi''] ''<Ba'') =
       Inl (CompileError ''Unexpected end of file'')
   \<and> returned (MdxChatCompletion example_compile example_components True [''Hi'']
        ''<Badge color={c}>Hi</Badge>'') =
       Inl (UnimplementedProp (AttrObject ''mdxJsxAttributeValueExpression'' ''c''))"
  using terminal_value [of example_compile "''Hi''" example_components "[''<Ba'', ''{1}'']"]
        terminal_value [of example_compile "''<Ba''" example_components "[''Hi'']"]
        terminal_value [of example_compile "''<Badge color={c}>Hi</Badge>''" example_components "[''Hi'']"]
  by (simp add: example_compile_def hydrateMDX_result root_node_def element_node_def text_node_def
        jsx_node_def jsx_attr_def expression_value_def expression_node_def
        children_of_def attributes_of_def componentName_def example_components_def
        convertAstToComponentRec.simps(1) value_child_def compact_def)

text \<open>
  C2. A frame whose hydration throws, for whatever reason, yields nothing: after it the
  values yielded so far are those yielded before it, the frames after it yield what they
  yield without it, and the value returned at the end is not affected.
\<close>

theorem failed_frame_yields_nothing:
  assumes "snd (hydrateMDX compile frame components) = Inl e"
  shows "yielded (MdxChatCompletion compile components True (pre @ [frame]) final) =
           yielded (MdxChatCompletion compile components True pre final)
       \<and> yielded (MdxChatCompletion compile components True (pre @ frame # post) final) =
           yielded (MdxChatCompletion compile components True pre final) @
           yielded (MdxChatCompletion compile components True post final)
       \<and> returned (MdxChatCompletion compile components True (pre @ frame # post) final) =
           returned (MdxChatCompletion compile components True (pre @ post) final)"
  using frame_loop_failed [OF assms]
  by (simp add: yielded_hydrate returned_hydrate frame_loop_append del: frame_loop.simps(2))

text \<open>
  The three ways to fail, each after a frame that hydrated: a document the parser rejects,
  an attribute with an expression as its value, and a node of a type the walker has no
  case for.
\<close>

theorem failed_frame_yields_nothing_witness:
  "snd (hydrateMDX example_compile ''<Ba'' example_components) =
     Inl (CompileError ''Unexpected end of file'')
   \<and> snd (hydrateMDX example_compile ''<Badge color={c}>Hi</Badge>'' example_components) =
     Inl (UnimplementedProp (AttrObject ''mdxJsxAttributeValueExpression'' ''c''))
   \<and> snd (hydrateMDX example_compile ''{1}'' example_components) =
     Inl (UnhandledType (expression_node ''1''))
   \<and> yielded (MdxChatCompletion example_compile example_components True [''Hi'', ''<Ba''] ''Hi'') =
     yielded (MdxChatCompletion example_compile example_components True [''Hi''] ''Hi'')
   \<and> yielded (MdxChatCompletion example_compile example_components True
        [''Hi'', ''<Badge color={c}>Hi</Badge>''] ''Hi'') =
     yielded (MdxChatCompletion example_compile example_components True [''Hi''] ''Hi'')
   \<and> yielded (MdxChatCompletion example_compile example_components True [''Hi'', ''{1}''] ''Hi'') =
     yielded (MdxChatCompletion example_compile example_components True [''Hi''] ''Hi'')
   \<and> yielded (MdxChatCompletion example_compile example_components True [''Hi''] ''Hi'') =
     [AIReact (RIntrinsic ''div''
        [RArray [RIntrinsic ''div''
           [RString ''element '', RArray [RIntrinsic ''span'' [RArray [RString ''Hi'']]]]]])]"
proof -
  note 1 = hydrate_unterminated and 2 = hydrate_expression_attribute and 3 = hydrate_expression
  have 4: "yielded (MdxChatCompletion example_compile example_components True [''Hi''] ''Hi'') =
     [AIReact (RIntrinsic ''div''
        [RArray [RIntrinsic ''div''
           [RString ''element '', RArray [RIntrinsic ''span'' [RArray [RString ''Hi'']]]]]])]"
    using hydrate_Hi by (auto simp: yielded_hydrate split: prod.splits sum.splits)
  show ?thesis
    using 1 2 3 4
      failed_frame_yields_nothing [OF 1, of "[''Hi'']" "''Hi''" "[]"]
      failed_frame_yields_nothing [OF 2, of "[''Hi'']" "''Hi''" "[]"]
      failed_frame_yields_nothing [OF 3, of "[''Hi'']" "''Hi''" "[]"]
    by simp
qed

subsection \<open>Plain elements\<close>

text \<open>
  C3, as the claim states it, fails: the case \<open>element\<close> never reads \<open>tagName\<close>. The
  elements \<open>h1\<close> and \<open>p\<close> with the same child walk to the same \<open>div\<close>.
\<close>

theorem element_tag_not_kept:
  "convertAstToComponentRec example_components (element_node ''h1'' [text_node ''Hi'']) =
     ([], Inr (RIntrinsic ''div''
        [RString ''element '', RArray [RIntrinsic ''span'' [RArray [RString ''Hi'']]]]))
   \<and> convertAstToComponentRec example_components (element_node ''p'' [text_node ''Hi'']) =
     convertAstToComponentRec example_components (element_node ''h1'' [text_node ''Hi''])"
  by (simp add: element_node_def text_node_def children_of_def
        convertAstToComponentRec.simps(1) value_child_def compact_def)

text \<open>
  C3, amended. A node of the type \<open>element\<close> whose children all walk without an error
  walks to a \<open>div\<close> with two child expressions: the text \<open>element \<close> and the array of
  the walked children, in order, without those that walked to \<open>null\<close>; the log is that of
  the children. The result does not depend on the tag name, the name, the value or the
  attributes of the node: the tag is not carried over and nothing is looked up in the
  registry for the node itself.
\<close>

theorem element_walk:
  "(node_type ast = ''element'' \<and>
      list_all (\<lambda>c. \<not> isl (snd (convertAstToComponentRec components c))) (children_of ast) \<longrightarrow>
      convertAstToComponentRec components ast =
        (concat (map (\<lambda>c. fst (convertAstToComponentRec components c)) (children_of ast)),
         Inr (RIntrinsic ''div''
           [RString ''element '',
            RArray (filter (\<lambda>r. r \<noteq> RNull)
              (map (\<lambda>c. projr (snd (convertAstToComponentRec components c))) (children_of ast)))])))
   \<and> convertAstToComponentRec components (Node ''element'' tagName children name val attributes) =
       convertAstToComponentRec components (Node ''element'' tagName' children name' val' attributes')"
proof (intro conjI impI)
  assume h: "node_type ast = ''element'' \<and>
      list_all (\<lambda>c. \<not> isl (snd (convertAstToComponentRec components c))) (children_of ast)"
  let ?rs = "map (\<lambda>c. projr (snd (convertAstToComponentRec components c))) (children_of ast)"
  let ?l = "concat (map (\<lambda>c. fst (convertAstToComponentRec components c)) (children_of ast))"
  from h have m: "map_convertAstToComponentRec components (children_of ast) = (?l, Inr ?rs)"
    by (simp add: map_convert_all_ok)
  then have "compact ?rs = filter (\<lambda>r. r \<noteq> RNull) ?rs"
    by (rule compact_walked)
  with h m show "convertAstToComponentRec components ast =
      (?l, Inr (RIntrinsic ''div'' [RString ''element '', RArray (filter (\<lambda>r. r \<noteq> RNull) ?rs)]))"
    by (simp add: convertAstToComponentRec.simps(1))
next
  show "convertAstToComponentRec components (Node ''element'' tagName children name val attributes) =
       convertAstToComponentRec components (Node ''element'' tagName' children name' val' attributes')"
    by (simp add: convertAstToComponentRec.simps(1) children_of_def)
qed

text \<open>A list element with a text, an unknown component and a newline as its children.\<close>

theorem element_walk_witness:
  "convertAstToComponentRec example_components
     (element_node ''ul'' [text_node ''a'', jsx_node ''Unknown'' [] [], text_node [CHR 0x0A]]) =
     ([Warn_ignoring ''Unknown''],
      Inr (RIntrinsic ''div''
        [RString ''element '',
         RArray [RIntrinsic ''span'' [RArray [RString ''a'']], RIntrinsic ''br'' []]]))"
  using element_walk [of "element_node ''ul'' [text_node ''a'', jsx_node ''Unknown'' [] [], text_node [CHR 0x0A]]" example_components]
  by (simp add: element_node_def text_node_def jsx_node_def children_of_def
        convertAstToComponentRec.simps(1) value_child_def attributes_of_def componentName_def
        example_components_def)

subsection \<open>Components\<close>






subsection \<open>Text nodes\<close>

text \<open>
  C6. A node of the type \<open>text\<close> walks to \<open><br />\<close> when its value is the one-character
  string of a newline, and only then. Any other string \<open>v\<close>, also one that contains a
  newline among other characters, walks to \<open><span>{[v]}</span>\<close>: the child is an array
  with the whole string as its only entry. Nothing is logged and nothing is thrown.
\<close>

theorem text_node_walk:
  assumes "node_type ast = ''text''"
  shows "(node_value ast = Some [CHR 0x0A] \<longrightarrow>
            convertAstToComponentRec components ast = ([], Inr (RIntrinsic ''br'' [])))
       \<and> (\<forall>v. node_value ast = Some v \<and> v \<noteq> [CHR 0x0A] \<longrightarrow>
            convertAstToComponentRec components ast =
              ([], Inr (RIntrinsic ''span'' [RArray [RString v]])))
       \<and> (snd (convertAstToComponentRec components ast) = Inr (RIntrinsic ''br'' [])
            \<longleftrightarrow> node_value ast = Some [CHR 0x0A])"
  using assms by (simp add: convertAstToComponentRec.simps(1) value_child_def)

text \<open>The newline, a word, and a string with a newline in its middle.\<close>

theorem text_node_walk_witness:
  "convertAstToComponentRec example_components (text_node [CHR 0x0A]) =
     ([], Inr (RIntrinsic ''br'' []))
   \<and> convertAstToComponentRec example_components (text_node ''hello'') =
     ([], Inr (RIntrinsic ''span'' [RArray [RString ''hello'']]))
   \<and> convertAstToComponentRec example_components (text_node (''a'' @ [CHR 0x0A] @ ''b'')) =
     ([], Inr (RIntrinsic ''span'' [RArray [RString (''a'' @ [CHR 0x0A] @ ''b'')]]))"
  using text_node_walk [of "text_node [CHR 0x0A]" example_components]
        text_node_walk [of "text_node ''hello''" example_components]
        text_node_walk [of "text_node (''a'' @ [CHR 0x0A] @ ''b'')" example_components]
  by (simp add: text_node_def)

subsection \<open>The root and imports\<close>

text \<open>
  C7. A node of the type \<open>root\<close> whose children all walk without an error walks to a
  \<open>div\<close> over the array of the walked children, in the order of the document, without
  those that walked to \<open>null\<close>; the log is that of the children, in order. A node of the
  type \<open>mdxjsEsm\<close>, an import or export, walks to \<open>null\<close> and logs nothing.
\<close>

theorem root_and_import_walk:
  "(node_type ast = ''root'' \<and>
      list_all (\<lambda>c. \<not> isl (snd (convertAstToComponentRec components c))) (children_of ast) \<longrightarrow>
      convertAstToComponentRec components ast =
        (concat (map (\<lambda>c. fst (convertAstToComponentRec components c)) (children_of ast)),
         Inr (RIntrinsic ''div''
           [RArray (filter (\<lambda>r. r \<noteq> RNull)
              (map (\<lambda>c. projr (snd (convertAstToComponentRec components c))) (children_of ast)))])))
   \<and> (node_type ast = ''mdxjsEsm'' \<longrightarrow> convertAstToComponentRec components ast = ([], Inr RNull))"
proof (intro conjI impI)
  assume h: "node_type ast = ''root'' \<and>
      list_all (\<lambda>c. \<not> isl (snd (convertAstToComponentRec components c))) (children_of ast)"
  let ?rs = "map (\<lambda>c. projr (snd (convertAstToComponentRec components c))) (children_of ast)"
  let ?l = "concat (map (\<lambda>c. fst (convertAstToComponentRec components c)) (children_of ast))"
  from h have m: "map_convertAstToComponentRec components (children_of ast) = (?l, Inr ?rs)"
    by (simp add: map_convert_all_ok)
  then have "compact ?rs = filter (\<lambda>r. r \<noteq> RNull) ?rs"
    by (rule compact_walked)
  with h m show "convertAstToComponentRec components ast =
      (?l, Inr (RIntrinsic ''div'' [RArray (filter (\<lambda>r. r \<noteq> RNull) ?rs)]))"
    by (simp add: convertAstToComponentRec.simps(1))
next
  assume "node_type ast = ''mdxjsEsm''"
  then show "convertAstToComponentRec components ast = ([], Inr RNull)"
    by (simp add: convertAstToComponentRec.simps(1))
qed

text \<open>A root over a text, an import, an unknown component and a newline; and the import alone.\<close>

theorem root_and_import_walk_witness:
  "convertAstToComponentRec example_components
     (root_node [text_node ''a'', esm_node ''import x'', jsx_node ''Unknown'' [] [], text_node [CHR 0x0A]]) =
     ([Warn_ignoring ''Unknown''],
      Inr (RIntrinsic ''div''
        [RArray [RIntrinsic ''span'' [RArray [RString ''a'']], RIntrinsic ''br'' []]]))
   \<and> convertAstToComponentRec example_components (esm_node ''import x'') = ([], Inr RNull)"
  using root_and_import_walk [of "root_node [text_node ''a'', esm_node ''import x'', jsx_node ''Unknown'' [] [], text_node [CHR 0x0A]]" example_components]
        root_and_import_walk [of "esm_node ''import x''" example_components]
  by (simp add: root_node_def esm_node_def text_node_def jsx_node_def children_of_def
        convertAstToComponentRec.simps(1) value_child_def attributes_of_def componentName_def
        example_components_def)

subsection \<open>Nodes of other types\<close>

text \<open>
  C9, as the claim states it, fails: on a frame that is not the final one the error of the
  default case is caught by the loop like any other. The frame \<open>{1}\<close> throws it, yields
  nothing, and the generator goes on and returns the hydrated final document.
\<close>

theorem unhandled_frame_swallowed:
  "snd (hydrateMDX example_compile ''{1}'' example_components) =
     Inl (UnhandledType (expression_node ''1''))
   \<and> yielded (MdxChatCompletion example_compile example_components True [''{1}''] ''Hi'') = []
   \<and> returned (MdxChatCompletion example_compile example_components True [''{1}''] ''Hi'') =
       Inr (AIReact (RIntrinsic ''div''
         [RArray [RIntrinsic ''div''
            [RString ''element '', RArray [RIntrinsic ''span'' [RArray [RString ''Hi'']]]]]]))"
proof -
  from hydrate_expression have "snd (frame_loop example_compile example_components [''{1}'']) = []"
    by (auto split: prod.splits sum.splits)
  with hydrate_expression hydrate_Hi show ?thesis
    by (simp add: yielded_hydrate returned_hydrate)
qed

text \<open>
  C9, amended. The walk of a node whose type is none of \<open>root\<close>, \<open>element\<close>,
  \<open>mdxJsxTextElement\<close>, \<open>mdxJsxFlowElement\<close>, \<open>text\<close> and \<open>mdxjsEsm\<close> throws the
  error of the default case, which carries the node; so does the walk of a root that has
  the node as a child after children that walk without an error. When the walk of the
  final document throws this error, the generator throws it to its caller. When the walk
  of a frame throws it, the frame yields nothing and the generator goes on: what it yields
  and returns is what it yields and returns without that frame.
\<close>

theorem unhandled_node_kind:
  assumes "node_type ast \<notin> {''root'', ''element'', ''mdxJsxTextElement'', ''mdxJsxFlowElement'',
                              ''text'', ''mdxjsEsm''}"
  shows "convertAstToComponentRec components ast = ([], Inl (UnhandledType ast))
       \<and> (list_all (\<lambda>c. \<not> isl (snd (convertAstToComponentRec components c))) before \<longrightarrow>
            snd (convertAstToComponentRec components
                   (Node ''root'' tg (Some (before @ ast # after)) nm v at)) =
              Inl (UnhandledType ast))
       \<and> (\<forall>doc. compile final = Inr (Some doc) \<and>
              snd (convertAstToComponentRec components doc) = Inl (UnhandledType ast) \<longrightarrow>
            returned (MdxChatCompletion compile components True frames final) =
              Inl (UnhandledType ast))
       \<and> (\<forall>doc. compile frame = Inr (Some doc) \<and>
              snd (convertAstToComponentRec components doc) = Inl (UnhandledType ast) \<longrightarrow>
            yielded (MdxChatCompletion compile components True (pre @ frame # post) final) =
              yielded (MdxChatCompletion compile components True (pre @ post) final) \<and>
            returned (MdxChatCompletion compile components True (pre @ frame # post) final) =
              returned (MdxChatCompletion compile components True (pre @ post) final))"
proof (intro conjI allI impI)
  show u: "convertAstToComponentRec components ast = ([], Inl (UnhandledType ast))"
    using assms by (rule unhandled_walk)
  show "snd (convertAstToComponentRec components
                   (Node ''root'' tg (Some (before @ ast # after)) nm v at)) =
              Inl (UnhandledType ast)"
    if "list_all (\<lambda>c. \<not> isl (snd (convertAstToComponentRec components c))) before"
    using map_convert_first_failure [OF that, of ast "UnhandledType ast" after] u
    by (auto simp: root_walk split: prod.splits sum.splits)
  show "returned (MdxChatCompletion compile components True frames final) = Inl (UnhandledType ast)"
    if "compile final = Inr (Some doc) \<and>
        snd (convertAstToComponentRec components doc) = Inl (UnhandledType ast)" for doc
    using that by (simp add: returned_hydrate hydrateMDX_result)
  have f: "snd (hydrateMDX compile frame components) = Inl (UnhandledType ast)"
    if "compile frame = Inr (Some doc) \<and>
        snd (convertAstToComponentRec components doc) = Inl (UnhandledType ast)" for doc
    using that by (simp add: hydrateMDX_result)
  show "yielded (MdxChatCompletion compile components True (pre @ frame # post) final) =
        yielded (MdxChatCompletion compile components True (pre @ post) final)"
    if "compile frame = Inr (Some doc) \<and>
        snd (convertAstToComponentRec components doc) = Inl (UnhandledType ast)" for doc
    using frame_loop_failed [OF f [OF that]]
    by (simp add: yielded_hydrate frame_loop_append del: frame_loop.simps(2))
  show "returned (MdxChatCompletion compile components True (pre @ frame # post) final) =
        returned (MdxChatCompletion compile components True (pre @ post) final)"
    if "compile frame = Inr (Some doc) \<and>
        snd (convertAstToComponentRec components doc) = Inl (UnhandledType ast)" for doc
    by (simp add: returned_hydrate)
qed

text \<open>
  The expression node alone, as the final document \<open>{1}\<close>, and as a frame after the
  frame \<open>Hi\<close>.
\<close>

theorem unhandled_node_kind_witness:
  "convertAstToComponentRec example_components (expression_node ''1'') =
     ([], Inl (UnhandledType (expression_node ''1'')))
   \<and> returned (MdxChatCompletion example_compile example_components True [''Hi''] ''{1}'') =
       Inl (UnhandledType (expression_node ''1''))
   \<and> yielded (MdxChatCompletion example_compile example_components True [''Hi'', ''{1}''] ''Hi'') =
       yielded (MdxChatCompletion example_compile example_components True [''Hi''] ''Hi'')"
proof -
  have t: "node_type (expression_node ''1'') \<notin>
      {''root'', ''element'', ''mdxJsxTextElement'', ''mdxJsxFlowElement'', ''text'', ''mdxjsEsm''}"
    by (simp add: expression_node_def)
  have c: "example_compile ''{1}'' = Inr (Some (root_node [expression_node ''1'']))"
    by (simp add: example_compile_def)
  note k = unhandled_node_kind [OF t, where components = example_components
      and compile = example_compile and before = "[]" and after = "[]"
      and tg = None and nm = None and v = None and at = None]
  have w: "snd (convertAstToComponentRec example_components (root_node [expression_node ''1''])) =
      Inl (UnhandledType (expression_node ''1''))"
    using k by (simp add: root_node_def)
  show ?thesis
    using k [where final = "''{1}''" and frames = "[''Hi'']" and frame = "''{1}''"
               and pre = "[''Hi'']" and post = "[]"]
          k [where final = "''Hi''" and frames = "[''Hi'']" and frame = "''{1}''"
               and pre = "[''Hi'']" and post = "[]"] c w
    by simp
qed

subsection \<open>Without hydration\<close>

text \<open>
  C10. When \<open>hydrate\<close> is false (an absent \<open>hydrate\<close> is \<open>undefined\<close> and takes the
  same branch), the generator returns the completion as it is: it yields nothing and logs
  nothing, and the result is the same for every parser, every registry and every sequence
  of frames, so neither the parser nor the walker has a part in it.
\<close>

theorem not_hydrated:
  "MdxChatCompletion compile components False frames final =
     \<lparr>yielded = [], returned = Inr (Completion completion), logged = []\<rparr>
   \<and> MdxChatCompletion compile components False frames final =
     MdxChatCompletion compile' components' False frames' final'"
  by (simp add: MdxChatCompletion_def)

text \<open>A frame and a final document that the parser rejects do no harm.\<close>

theorem not_hydrated_witness:
  "MdxChatCompletion example_compile example_components False [''<Ba''] ''<Ba'' =
     \<lparr>yielded = [], returned = Inr (Completion completion), logged = []\<rparr>"
  using not_hydrated [of example_compile example_components "[''<Ba'']" "''<Ba''"]
  by simp

end
